theory Spec2Isabelle
  imports Main "HOL-Library.Sublist"
begin

section \<open>Python strings\<close>

text \<open>
  Python's \<open>str\<close> values are modelled as \<open>string\<close>. The helpers below are the string
  methods that \<open>libpath.py\<close> and the path functions it calls rely on.
\<close>

definition startswith :: "string \<Rightarrow> string \<Rightarrow> bool" where
  \<comment> \<open>\<open>s.startswith(pre)\<close>\<close>
  "startswith s pre = (take (length pre) s = pre)"

definition startswith_any :: "string \<Rightarrow> string list \<Rightarrow> bool" where
  \<comment> \<open>\<open>s.startswith((p1, p2, ...))\<close>: some member of the tuple is a prefix\<close>
  "startswith_any s pres = list_ex (startswith s) pres"

definition endswith :: "string \<Rightarrow> string \<Rightarrow> bool" where
  \<comment> \<open>\<open>s.endswith(suf)\<close>\<close>
  "endswith s suf = (length suf \<le> length s \<and> drop (length s - length suf) s = suf)"

fun str_join :: "string \<Rightarrow> string list \<Rightarrow> string" where
  \<comment> \<open>\<open>sep.join(xs)\<close>\<close>
  "str_join sep [] = []"
| "str_join sep [x] = x"
| "str_join sep (x # y # ys) = x @ sep @ str_join sep (y # ys)"

definition newline :: char where
  "newline = CHR 0x0A"

definition backslash :: char where
  "backslash = CHR 0x5C"

definition ascii_upper :: "char \<Rightarrow> char" where
  \<comment> \<open>\<open>str.upper\<close> on one ASCII character\<close>
  "ascii_upper c =
     (let n = (of_char c :: nat) in if 97 \<le> n \<and> n \<le> 122 then char_of (n - 32) else c)"

definition ascii_lower :: "char \<Rightarrow> char" where
  \<comment> \<open>\<open>str.lower\<close> on one ASCII character\<close>
  "ascii_lower c =
     (let n = (of_char c :: nat) in if 65 \<le> n \<and> n \<le> 90 then char_of (n + 32) else c)"

fun find_aux :: "char \<Rightarrow> nat \<Rightarrow> string \<Rightarrow> nat option" where
  "find_aux c i [] = None"
| "find_aux c i (x # xs) = (if x = c then Some i else find_aux c (Suc i) xs)"

definition str_find :: "string \<Rightarrow> char \<Rightarrow> nat \<Rightarrow> nat option" where
  \<comment> \<open>\<open>s.find(c, start)\<close>; Python's \<open>-1\<close> is \<open>None\<close>\<close>
  "str_find s c start = find_aux c start (drop start s)"


section \<open>The standard library's path functions\<close>

text \<open>
  \<open>os.path.join\<close> is not part of the repository: it is \<open>posixpath.join\<close> or
  \<open>ntpath.join\<close> of the Python standard library, whichever the interpreter bound to
  \<open>os.path\<close>. Both are modelled after the CPython 3.12 sources, on ASCII paths; the
  first argument and the list of the remaining ones are the \<open>a, *p\<close> of the Python
  signature.
\<close>

fun posixpath_join :: "string \<Rightarrow> string list \<Rightarrow> string" where
  "posixpath_join path [] = path"
| "posixpath_join path (b # p) =
     posixpath_join
       (if startswith b ''/'' then b
        else if path = [] \<or> endswith path ''/'' then path @ b
        else path @ ''/'' @ b) p"

definition is_sep :: "char \<Rightarrow> bool" where
  \<comment> \<open>membership in \<open>seps\<close>, the two separators of \<open>ntpath\<close>\<close>
  "is_sep c = (c = backslash \<or> c = CHR ''/'')"

definition unc_prefix :: string where
  "unc_prefix = [backslash, backslash, CHR ''?'', backslash] @ ''UNC'' @ [backslash]"

definition splitroot :: "string \<Rightarrow> string \<times> string \<times> string" where
  \<comment> \<open>\<open>ntpath.splitroot\<close>: drive, root and tail of a path\<close>
  "splitroot p =
     (let normp = map (\<lambda>c. if c = CHR ''/'' then backslash else c) p in
      if take 1 normp = [backslash] then
        if take 1 (drop 1 normp) = [backslash] then
          (let start = (if map ascii_upper (take 8 normp) = unc_prefix then 8 else 2) in
           case str_find normp backslash start of
             None \<Rightarrow> (p, [], [])
           | Some index \<Rightarrow>
               (case str_find normp backslash (index + 1) of
                  None \<Rightarrow> (p, [], [])
                | Some index2 \<Rightarrow> (take index2 p, take 1 (drop index2 p), drop (index2 + 1) p)))
        else ([], take 1 p, drop 1 p)
      else if take 1 (drop 1 normp) = '':'' then
        if take 1 (drop 2 normp) = [backslash] then (take 2 p, take 1 (drop 2 p), drop 3 p)
        else (take 2 p, [], drop 2 p)
      else ([], [], p))"

definition add_sep :: "string \<Rightarrow> string" where
  \<comment> \<open>\<open>if result_path and result_path[-1] not in seps: result_path = result_path + sep\<close>\<close>
  "add_sep result_path =
     (if result_path \<noteq> [] \<and> \<not> is_sep (last result_path) then result_path @ [backslash]
      else result_path)"

fun ntpath_join_loop :: "string \<times> string \<times> string \<Rightarrow> string list \<Rightarrow> string \<times> string \<times> string" where
  "ntpath_join_loop r [] = r"
| "ntpath_join_loop (result_drive, result_root, result_path) (p # ps) =
     (case splitroot p of (p_drive, p_root, p_path) \<Rightarrow>
        if p_root \<noteq> [] then
          ntpath_join_loop
            (if p_drive \<noteq> [] \<or> result_drive = [] then p_drive else result_drive, p_root, p_path) ps
        else if p_drive \<noteq> [] \<and> p_drive \<noteq> result_drive then
          (if map ascii_lower p_drive \<noteq> map ascii_lower result_drive then
             ntpath_join_loop (p_drive, p_root, p_path) ps
           else ntpath_join_loop (p_drive, result_root, add_sep result_path @ p_path) ps)
        else ntpath_join_loop (result_drive, result_root, add_sep result_path @ p_path) ps)"

definition ntpath_join :: "string \<Rightarrow> string list \<Rightarrow> string" where
  "ntpath_join path paths =
     (case ntpath_join_loop (splitroot path) paths of (result_drive, result_root, result_path) \<Rightarrow>
        if result_path \<noteq> [] \<and> result_root = [] \<and> result_drive \<noteq> [] \<and>
           \<not> (last result_drive = CHR '':'' \<or> is_sep (last result_drive))
        then result_drive @ [backslash] @ result_path
        else result_drive @ result_root @ result_path)"


section \<open>The process and the file system\<close>

datatype os_name = Posix | Nt

datatype file_kind = RegularFile | Directory | SpecialFile

text \<open>
  Everything \<open>find_lib_path\<close> reads from its surroundings. \<open>curr_path\<close> is the value of
  \<open>os.path.dirname(os.path.abspath(os.path.expanduser(__file__)))\<close>, the directory of the
  package. \<open>fs\<close> gives the kind of the node a path resolves to, symbolic links followed,
  and \<open>None\<close> for a path that resolves to nothing.
\<close>

record host =
  os_name :: os_name
  sys_platform :: string
  platform_system :: string
  sys_base_prefix :: string
  curr_path :: string
  environ :: "string \<rightharpoonup> string"
  fs :: "string \<rightharpoonup> file_kind"

definition os_path_join :: "host \<Rightarrow> string \<Rightarrow> string list \<Rightarrow> string" where
  "os_path_join h a p = (case os_name h of Posix \<Rightarrow> posixpath_join a p | Nt \<Rightarrow> ntpath_join a p)"

definition os_path_exists :: "host \<Rightarrow> string \<Rightarrow> bool" where
  "os_path_exists h p = (fs h p \<noteq> None)"

definition os_path_isfile :: "host \<Rightarrow> string \<Rightarrow> bool" where
  "os_path_isfile h p = (fs h p = Some RegularFile)"

definition pardir :: string where
  "pardir = ''..''"


section \<open>\<open>libpath.py\<close>\<close>

datatype error = XGBoostLibraryNotFound string

definition builtin_dirs :: "host \<Rightarrow> string list" where
  \<comment> \<open>the list literal that \<open>dll_path\<close> starts from\<close>
  "builtin_dirs h =
     [os_path_join h (curr_path h) [''lib''],
      os_path_join h (curr_path h) [pardir, pardir, ''lib''],
      os_path_join h (sys_base_prefix h) [''lib'']]"

definition custom_dirs :: "host \<Rightarrow> string list \<Rightarrow> string list" where
  \<comment> \<open>\<open>if custom_xgboost_path is not None: dll_path.extend([...])\<close>\<close>
  "custom_dirs h dll =
     (case environ h ''XGBOOST_LIBRARY_PATH'' of
        None \<Rightarrow> dll
      | Some custom_xgboost_path \<Rightarrow> dll @ [os_path_join h custom_xgboost_path [''lib'']])"

definition conda_dirs :: "host \<Rightarrow> string list" where
  \<comment> \<open>the list the \<open>win32\<close> branch extends \<open>dll_path\<close> with\<close>
  "conda_dirs h =
     [os_path_join h (sys_base_prefix h) [''bin''],
      os_path_join h (sys_base_prefix h) [''Library''],
      os_path_join h (sys_base_prefix h) [''Library'', ''bin''],
      os_path_join h (sys_base_prefix h) [''Library'', ''lib''],
      os_path_join h (sys_base_prefix h) [''Library'', ''mingw-w64''],
      os_path_join h (sys_base_prefix h) [''Library'', ''mingw-w64'', ''bin''],
      os_path_join h (sys_base_prefix h) [''Library'', ''mingw-w64'', ''lib'']]"

definition platform_paths :: "host \<Rightarrow> string list \<Rightarrow> string list" where
  \<comment> \<open>the \<open>if\<close>/\<open>elif\<close> chain on \<open>sys.platform\<close>\<close>
  "platform_paths h dll =
     (if sys_platform h = ''win32'' then
        map (\<lambda>p. os_path_join h p [''xgboost.dll'']) (dll @ conda_dirs h)
      else if startswith_any (sys_platform h) [''linux'', ''freebsd'', ''emscripten''] then
        map (\<lambda>p. os_path_join h p [''libxgboost.so'']) dll
      else if sys_platform h = ''darwin'' then
        map (\<lambda>p. os_path_join h p [''libxgboost.dylib'']) dll
      else if sys_platform h = ''cygwin'' then
        map (\<lambda>p. os_path_join h p [''cygxgboost.dll'']) dll
      else dll)"

definition dll_path :: "host \<Rightarrow> string list" where
  \<comment> \<open>the value of \<open>dll_path\<close> when the filter runs\<close>
  "dll_path h =
     (let dll = platform_paths h (custom_dirs h (builtin_dirs h)) in
      if platform_system h = ''OS400'' then map (\<lambda>p. os_path_join h p [''libxgboost.so'']) dll
      else dll)"

definition build_doc :: "host \<Rightarrow> bool" where
  \<comment> \<open>truth value of \<open>os.environ.get("XGBOOST_BUILD_DOC", False)\<close>: a non-empty string\<close>
  "build_doc h =
     (case environ h ''XGBOOST_BUILD_DOC'' of None \<Rightarrow> False | Some v \<Rightarrow> v \<noteq> [])"

definition link :: string where
  "link = ''https://xgboost.readthedocs.io/en/stable/install.html''"

definition msg :: "host \<Rightarrow> string" where
  "msg h =
     ''Cannot find XGBoost Library in the candidate path.  ''
     @ ''List of candidates:'' @ [newline] @ ''- ''
     @ str_join ([newline] @ ''- '') (dll_path h)
     @ [newline] @ ''XGBoost Python package path: ''
     @ curr_path h
     @ [newline] @ ''sys.base_prefix: ''
     @ sys_base_prefix h
     @ [newline] @ ''See: ''
     @ link
     @ '' for installing XGBoost.''"

definition find_lib_path :: "host \<Rightarrow> error + string list" where
  "find_lib_path h =
     (let lib_path = filter (\<lambda>p. os_path_exists h p \<and> os_path_isfile h p) (dll_path h) in
      if lib_path = [] \<and> \<not> build_doc h then Inl (XGBoostLibraryNotFound (msg h))
      else Inr lib_path)"


section \<open>The candidate list in closed form\<close>

text \<open>
  The source builds \<open>dll_path\<close> by extending and re-mapping one list. The definitions
  below describe the same list as the specification does: an ordered list of base
  directories, and the file name that one base directory receives.
\<close>

definition override_dirs :: "host \<Rightarrow> string list" where
  \<comment> \<open>override/lib, if the override variable is set\<close>
  "override_dirs h =
     (case environ h ''XGBOOST_LIBRARY_PATH'' of
        None \<Rightarrow> []
      | Some v \<Rightarrow> [os_path_join h v [''lib'']])"

definition windows_dirs :: "host \<Rightarrow> string list" where
  \<comment> \<open>the Windows extras, on the Windows family only\<close>
  "windows_dirs h = (if sys_platform h = ''win32'' then conda_dirs h else [])"

definition candidate_dirs :: "host \<Rightarrow> string list" where
  \<comment> \<open>the base directories in priority order\<close>
  "candidate_dirs h =
     [os_path_join h (curr_path h) [''lib''],
      os_path_join h (curr_path h) [''..'', ''..'', ''lib''],
      os_path_join h (sys_base_prefix h) [''lib'']]
     @ override_dirs h @ windows_dirs h"

definition family_file :: "host \<Rightarrow> string \<Rightarrow> string" where
  \<comment> \<open>a base directory with the file name of the platform family, if any, joined on\<close>
  "family_file h d =
     (if sys_platform h = ''win32'' then os_path_join h d [''xgboost.dll'']
      else if startswith (sys_platform h) ''linux'' \<or> startswith (sys_platform h) ''freebsd''
              \<or> startswith (sys_platform h) ''emscripten''
        then os_path_join h d [''libxgboost.so'']
      else if sys_platform h = ''darwin'' then os_path_join h d [''libxgboost.dylib'']
      else if sys_platform h = ''cygwin'' then os_path_join h d [''cygxgboost.dll'']
      else d)"

definition candidate_file :: "host \<Rightarrow> string \<Rightarrow> string" where
  \<comment> \<open>the candidate path that one base directory yields\<close>
  "candidate_file h d =
     (if platform_system h = ''OS400'' then os_path_join h (family_file h d) [''libxgboost.so'']
      else family_file h d)"

definition no_family :: "host \<Rightarrow> bool" where
  \<comment> \<open>\<open>sys.platform\<close> takes none of the four branches\<close>
  "no_family h =
     (sys_platform h \<noteq> ''win32''
      \<and> \<not> startswith_any (sys_platform h) [''linux'', ''freebsd'', ''emscripten'']
      \<and> sys_platform h \<noteq> ''darwin'' \<and> sys_platform h \<noteq> ''cygwin'')"


section \<open>The lists as the specification words them\<close>

text \<open>
  Written from the sentences of the specification, to be compared with \<open>dll_path\<close>: the
  Windows directories starting with the base prefix itself, and what it means for a
  candidate to have a given library file name.
\<close>

definition spec_windows_dirs :: "host \<Rightarrow> string list" where
  \<comment> \<open>"the prefix itself, .../Library, .../Library/bin, ..."\<close>
  "spec_windows_dirs h =
     [sys_base_prefix h,
      os_path_join h (sys_base_prefix h) [''Library''],
      os_path_join h (sys_base_prefix h) [''Library'', ''bin''],
      os_path_join h (sys_base_prefix h) [''Library'', ''lib''],
      os_path_join h (sys_base_prefix h) [''Library'', ''mingw-w64''],
      os_path_join h (sys_base_prefix h) [''Library'', ''mingw-w64'', ''bin''],
      os_path_join h (sys_base_prefix h) [''Library'', ''mingw-w64'', ''lib'']]"

definition spec_windows_paths :: "host \<Rightarrow> string list" where
  \<comment> \<open>the candidates that those Windows directories would give\<close>
  "spec_windows_paths h =
     map (candidate_file h) (builtin_dirs h @ override_dirs h @ spec_windows_dirs h)"




section \<open>Example hosts\<close>

text \<open>Hosts on which the model is evaluated.\<close>

definition linux_host :: host where
  "linux_host =
     \<lparr>os_name = Posix, sys_platform = ''linux'', platform_system = ''Linux'',
      sys_base_prefix = ''/usr'', curr_path = ''/pkg/xgboost'',
      environ = [''XGBOOST_LIBRARY_PATH'' \<mapsto> ''/opt/custom''],
      fs = [''/opt/custom/lib/libxgboost.so'' \<mapsto> RegularFile,
            ''/usr/lib/libxgboost.so'' \<mapsto> Directory]\<rparr>"

definition nolib_host :: host where
  "nolib_host = linux_host\<lparr>fs := Map.empty\<rparr>"

definition doc_host :: host where
  "doc_host = linux_host\<lparr>environ := [''XGBOOST_BUILD_DOC'' \<mapsto> ''1''], fs := Map.empty\<rparr>"

definition win_prefix :: string where
  "win_prefix = ''C:'' @ [backslash] @ ''Python''"

definition win_host :: host where
  "win_host =
     \<lparr>os_name = Nt, sys_platform = ''win32'', platform_system = ''Windows'',
      sys_base_prefix = win_prefix,
      curr_path = win_prefix @ [backslash] @ ''Lib'' @ [backslash] @ ''xgboost'',
      environ = Map.empty,
      fs = [win_prefix @ [backslash] @ ''xgboost.dll'' \<mapsto> RegularFile]\<rparr>"

definition os400_host :: host where
  "os400_host = linux_host\<lparr>sys_platform := ''os400'', platform_system := ''OS400''\<rparr>"

definition darwin_host :: host where
  "darwin_host = linux_host\<lparr>sys_platform := ''darwin'', platform_system := ''Darwin''\<rparr>"

definition sunos_host :: host where
  "sunos_host =
     \<lparr>os_name = Posix, sys_platform = ''sunos5'', platform_system = ''SunOS'',
      sys_base_prefix = ''/usr'', curr_path = ''/pkg/xgboost'',
      environ = [''XGBOOST_LIBRARY_PATH'' \<mapsto> ''/home/u/x''],
      fs = [''/home/u/x/lib'' \<mapsto> RegularFile, ''/usr/lib'' \<mapsto> Directory,
            ''/usr/lib/libxgboost.so'' \<mapsto> RegularFile]\<rparr>"

definition sunos_plain_host :: host where
  "sunos_plain_host = sunos_host\<lparr>environ := Map.empty\<rparr>"

definition empty_override_host :: host where
  "empty_override_host =
     linux_host\<lparr>environ := [''XGBOOST_LIBRARY_PATH'' \<mapsto> ''''],
                 fs := [''lib/libxgboost.so'' \<mapsto> RegularFile]\<rparr>"

definition busy_host :: host where
  "busy_host =
     linux_host\<lparr>environ := (environ linux_host)(''HOME'' \<mapsto> ''/root''),
                 fs := (fs linux_host)(''/etc/passwd'' \<mapsto> RegularFile)\<rparr>"


section \<open>Auxiliary facts\<close>

lemma custom_dirs_override: "custom_dirs h dll = dll @ override_dirs h"
  by (simp add: custom_dirs_def override_dirs_def split: option.split)

lemma platform_paths_family:
  "platform_paths h dll = map (family_file h) (dll @ windows_dirs h)"
  by (simp add: platform_paths_def family_file_def [abs_def] windows_dirs_def startswith_any_def)

lemma dll_path_candidates: "dll_path h = map (candidate_file h) (candidate_dirs h)"
  by (simp add: dll_path_def Let_def platform_paths_family custom_dirs_override candidate_file_def
      candidate_dirs_def builtin_dirs_def pardir_def)

lemma exists_and_isfile: "(os_path_exists h p \<and> os_path_isfile h p) = (fs h p = Some RegularFile)"
  by (auto simp add: os_path_exists_def os_path_isfile_def)

lemma find_lib_path_cases:
  "find_lib_path h =
     (if filter (\<lambda>p. fs h p = Some RegularFile) (dll_path h) = [] \<and> \<not> build_doc h
      then Inl (XGBoostLibraryNotFound (msg h))
      else Inr (filter (\<lambda>p. fs h p = Some RegularFile) (dll_path h)))"
  by (simp add: find_lib_path_def Let_def exists_and_isfile)

lemma sublist_in: "sublist p s \<Longrightarrow> sublist p (a @ s @ b)"
proof -
  assume "sublist p s"
  then obtain u v where "s = u @ p @ v" by (auto simp add: sublist_def)
  then have "a @ s @ b = (a @ u) @ p @ (v @ b)" by simp
  then show ?thesis unfolding sublist_def by blast
qed

lemma sublist_str_join: "p \<in> set ps \<Longrightarrow> sublist p (str_join sep ps)"
proof (induction sep ps rule: str_join.induct)
  case (1 sep)
  then show ?case by simp
next
  case (2 sep x)
  then show ?case by simp
next
  case (3 sep x y ys)
  show ?case
  proof (cases "p = x")
    case True
    then show ?thesis by simp
  next
    case False
    with 3 have "sublist p (str_join sep (y # ys))" by simp
    then have "sublist p ((x @ sep) @ str_join sep (y # ys) @ [])"
      by (rule sublist_in)
    then show ?thesis by simp
  qed
qed

lemma msg_candidates: "p \<in> set (dll_path h) \<Longrightarrow> sublist p (msg h)"
proof -
  assume "p \<in> set (dll_path h)"
  then have s: "sublist p (str_join ([newline] @ ''- '') (dll_path h))"
    by (rule sublist_str_join)
  show ?thesis unfolding msg_def
    by (rule sublist_in [OF s, of "_ @ _ @ _ @ _", simplified append_assoc])
qed

lemma msg_curr_path: "sublist (curr_path h) (msg h)"
  unfolding msg_def by (metis sublist_appendI append_assoc)

lemma msg_base_prefix: "sublist (sys_base_prefix h) (msg h)"
  unfolding msg_def by (metis sublist_appendI append_assoc)

lemma msg_link: "sublist link (msg h)"
  unfolding msg_def by (metis sublist_appendI append_assoc)

lemma join_empty_lib: "os_path_join h [] [''lib''] = ''lib''"
  by (cases "os_name h")
     (simp_all add: os_path_join_def startswith_def ntpath_join_def splitroot_def add_sep_def
        backslash_def)

lemma dll_path_reads:
  assumes o: "os_name h' = os_name h" and p: "sys_platform h' = sys_platform h"
    and s: "platform_system h' = platform_system h" and b: "sys_base_prefix h' = sys_base_prefix h"
    and c: "curr_path h' = curr_path h"
    and e: "environ h' ''XGBOOST_LIBRARY_PATH'' = environ h ''XGBOOST_LIBRARY_PATH''"
  shows "dll_path h' = dll_path h"
proof -
  have j: "os_path_join h' = os_path_join h"
    using o by (simp add: os_path_join_def fun_eq_iff)
  have 1: "builtin_dirs h' = builtin_dirs h"
    by (simp add: builtin_dirs_def j b c)
  have 2: "override_dirs h' = override_dirs h"
    by (simp add: override_dirs_def j e split: option.split)
  have 3: "windows_dirs h' = windows_dirs h"
    by (simp add: windows_dirs_def conda_dirs_def j p b)
  have 4: "family_file h' = family_file h"
    by (simp add: family_file_def fun_eq_iff j p)
  have 5: "candidate_file h' = candidate_file h"
    by (simp add: candidate_file_def fun_eq_iff j s 4)
  have "candidate_dirs h' = candidate_dirs h"
    by (simp add: candidate_dirs_def j b c 2 3)
  with 5 show ?thesis by (simp add: dll_path_candidates)
qed






lemma dll_path_without_override:
  "dll_path (h\<lparr>environ := (environ h)(''XGBOOST_LIBRARY_PATH'' := None)\<rparr>) =
     map (candidate_file h) (builtin_dirs h @ windows_dirs h)"
proof -
  let ?h = "h\<lparr>environ := (environ h)(''XGBOOST_LIBRARY_PATH'' := None)\<rparr>"
  have j: "os_path_join ?h = os_path_join h"
    by (simp add: os_path_join_def fun_eq_iff)
  have 1: "builtin_dirs ?h = builtin_dirs h"
    by (simp add: builtin_dirs_def j)
  have 2: "override_dirs ?h = []"
    by (simp add: override_dirs_def)
  have 3: "windows_dirs ?h = windows_dirs h"
    by (simp add: windows_dirs_def conda_dirs_def j)
  have 4: "family_file ?h = family_file h"
    by (simp add: family_file_def fun_eq_iff j)
  have 5: "candidate_file ?h = candidate_file h"
    by (simp add: candidate_file_def fun_eq_iff j 4)
  have "dll_path ?h = map (candidate_file ?h) (builtin_dirs ?h @ override_dirs ?h @ windows_dirs ?h)"
    by (simp add: dll_path_candidates candidate_dirs_def builtin_dirs_def pardir_def)
  then show ?thesis by (simp only: 1 2 3 5 append_Nil)
qed

lemma dll_path_with_override:
  "environ h ''XGBOOST_LIBRARY_PATH'' = Some v \<Longrightarrow>
     dll_path h =
       map (candidate_file h) (builtin_dirs h @ [os_path_join h v [''lib'']] @ windows_dirs h)"
  by (simp add: dll_path_candidates candidate_dirs_def builtin_dirs_def pardir_def
      override_dirs_def)











lemmas model_defs =
  find_lib_path_def dll_path_def platform_paths_def custom_dirs_def builtin_dirs_def
  conda_dirs_def os_path_join_def os_path_exists_def os_path_isfile_def build_doc_def
  pardir_def startswith_any_def startswith_def endswith_def
  ntpath_join_def splitroot_def add_sep_def is_sep_def backslash_def
  candidate_dirs_def candidate_file_def family_file_def override_dirs_def windows_dirs_def
  no_family_def spec_windows_dirs_def spec_windows_paths_def

lemmas host_defs =
  linux_host_def nolib_host_def doc_host_def win_host_def win_prefix_def os400_host_def
  darwin_host_def sunos_host_def sunos_plain_host_def empty_override_host_def busy_host_def


section \<open>The claims\<close>

text \<open>
  Claim C1. Whenever \<open>find_lib_path\<close> returns, the list it returns is the list of
  candidates filtered down to the paths that are regular files, in the order of the
  candidates; and it does return as soon as one candidate is a regular file. The candidates
  are one path per base directory, the base directories being own-dir/lib,
  own-dir/../../lib, base-prefix/lib, then override/lib when the override is set, then the
  Windows directories on \<open>win32\<close>.
\<close>

theorem find_lib_path_returns_regular_candidates:
  "(find_lib_path h = Inr lib_path \<longrightarrow>
      lib_path = filter (\<lambda>p. fs h p = Some RegularFile)
                   (map (candidate_file h) (candidate_dirs h)))
   \<and> (filter (\<lambda>p. fs h p = Some RegularFile) (map (candidate_file h) (candidate_dirs h)) \<noteq> [] \<longrightarrow>
      find_lib_path h =
        Inr (filter (\<lambda>p. fs h p = Some RegularFile) (map (candidate_file h) (candidate_dirs h))))"
  by (simp add: find_lib_path_cases dll_path_candidates)

theorem find_lib_path_returns_regular_candidates_witness:
  "find_lib_path linux_host = Inr [''/opt/custom/lib/libxgboost.so'']
   \<and> filter (\<lambda>p. fs linux_host p = Some RegularFile)
        (map (candidate_file linux_host) (candidate_dirs linux_host))
      = [''/opt/custom/lib/libxgboost.so'']"
proof -
  have r: "find_lib_path linux_host = Inr [''/opt/custom/lib/libxgboost.so'']"
    by (simp add: model_defs host_defs)
  from find_lib_path_returns_regular_candidates [of linux_host "[''/opt/custom/lib/libxgboost.so'']"] r
  show ?thesis by simp
qed

text \<open>
  Claim C2. \<open>find_lib_path\<close> raises \<open>XGBoostLibraryNotFound\<close> exactly when no candidate
  is a regular file and \<open>XGBOOST_BUILD_DOC\<close> is not truthy. The message of the error then
  contains every candidate, the package directory, the base prefix and the link to the
  installation page. With no regular candidate and a truthy flag the result is the empty
  list.
\<close>

theorem find_lib_path_not_found:
  "((\<exists>e. find_lib_path h = Inl e) \<longleftrightarrow>
      (\<forall>p \<in> set (dll_path h). fs h p \<noteq> Some RegularFile) \<and> \<not> build_doc h)
   \<and> (find_lib_path h = Inl (XGBoostLibraryNotFound m) \<longrightarrow>
        (\<forall>p \<in> set (dll_path h). sublist p m) \<and> sublist (curr_path h) m
        \<and> sublist (sys_base_prefix h) m \<and> sublist link m)
   \<and> ((\<forall>p \<in> set (dll_path h). fs h p \<noteq> Some RegularFile) \<and> build_doc h \<longrightarrow>
        find_lib_path h = Inr [])"
  by (auto simp add: find_lib_path_cases filter_empty_conv msg_candidates msg_curr_path
      msg_base_prefix msg_link)

theorem find_lib_path_not_found_witness:
  "find_lib_path nolib_host = Inl (XGBoostLibraryNotFound (msg nolib_host))
   \<and> sublist ''/opt/custom/lib/libxgboost.so'' (msg nolib_host)
   \<and> sublist ''/pkg/xgboost'' (msg nolib_host)
   \<and> sublist ''/usr'' (msg nolib_host)
   \<and> sublist ''https://xgboost.readthedocs.io/en/stable/install.html'' (msg nolib_host)
   \<and> find_lib_path doc_host = Inr []"
proof -
  have none: "\<forall>p \<in> set (dll_path nolib_host). fs nolib_host p \<noteq> Some RegularFile"
    by (simp add: host_defs)
  have nodoc: "\<not> build_doc nolib_host"
    by (simp add: build_doc_def host_defs)
  have cand: "''/opt/custom/lib/libxgboost.so'' \<in> set (dll_path nolib_host)"
    by (simp add: model_defs host_defs)
  have none': "\<forall>p \<in> set (dll_path doc_host). fs doc_host p \<noteq> Some RegularFile"
    by (simp add: host_defs)
  have doc: "build_doc doc_host"
    by (simp add: build_doc_def host_defs)
  have flds: "curr_path nolib_host = ''/pkg/xgboost''" "sys_base_prefix nolib_host = ''/usr''"
    by (simp_all add: host_defs)
  from find_lib_path_not_found [of nolib_host] none nodoc
  obtain e where e: "find_lib_path nolib_host = Inl e" by blast
  then have raised: "find_lib_path nolib_host = Inl (XGBoostLibraryNotFound (msg nolib_host))"
    by (simp add: find_lib_path_def Let_def split: if_splits)
  from find_lib_path_not_found [of nolib_host "msg nolib_host"] raised cand flds
  have "sublist ''/opt/custom/lib/libxgboost.so'' (msg nolib_host)
     \<and> sublist ''/pkg/xgboost'' (msg nolib_host)
     \<and> sublist ''/usr'' (msg nolib_host) \<and> sublist link (msg nolib_host)"
    by auto
  moreover from find_lib_path_not_found [of doc_host] none' doc
  have "find_lib_path doc_host = Inr []" by blast
  ultimately show ?thesis using raised by (simp add: link_def)
qed



text \<open>
  Claim C4, amended. On \<open>win32\<close> the base directories are the three built-in ones, the
  override directory if set, and then seven directories under the base prefix: bin,
  Library, Library/bin, Library/lib, Library/mingw-w64, Library/mingw-w64/bin and
  Library/mingw-w64/lib. The first of the seven is prefix/bin, not the prefix itself: on
  \<open>win_host\<close> a library directly under the prefix is not a candidate and the search
  fails, which refutes the claim as stated.
\<close>

theorem windows_dirs_appended:
  "sys_platform h = ''win32'' \<Longrightarrow>
     dll_path h =
       map (candidate_file h)
         (builtin_dirs h @ override_dirs h @
          [os_path_join h (sys_base_prefix h) [''bin''],
           os_path_join h (sys_base_prefix h) [''Library''],
           os_path_join h (sys_base_prefix h) [''Library'', ''bin''],
           os_path_join h (sys_base_prefix h) [''Library'', ''lib''],
           os_path_join h (sys_base_prefix h) [''Library'', ''mingw-w64''],
           os_path_join h (sys_base_prefix h) [''Library'', ''mingw-w64'', ''bin''],
           os_path_join h (sys_base_prefix h) [''Library'', ''mingw-w64'', ''lib'']])
     \<and> (platform_system h \<noteq> ''OS400'' \<longrightarrow>
          candidate_file h = (\<lambda>d. os_path_join h d [''xgboost.dll'']))"
  by (simp add: dll_path_candidates candidate_dirs_def builtin_dirs_def pardir_def
      windows_dirs_def conda_dirs_def candidate_file_def [abs_def] family_file_def [abs_def])

theorem windows_dirs_appended_witness:
  "sys_platform win_host = ''win32''
   \<and> dll_path win_host =
       map (\<lambda>d. d @ [backslash] @ ''xgboost.dll'')
         [win_prefix @ [backslash] @ ''Lib'' @ [backslash] @ ''xgboost'' @ [backslash] @ ''lib'',
          win_prefix @ [backslash] @ ''Lib'' @ [backslash] @ ''xgboost'' @ [backslash] @ ''..''
            @ [backslash] @ ''..'' @ [backslash] @ ''lib'',
          win_prefix @ [backslash] @ ''lib'',
          win_prefix @ [backslash] @ ''bin'',
          win_prefix @ [backslash] @ ''Library'',
          win_prefix @ [backslash] @ ''Library'' @ [backslash] @ ''bin'',
          win_prefix @ [backslash] @ ''Library'' @ [backslash] @ ''lib'',
          win_prefix @ [backslash] @ ''Library'' @ [backslash] @ ''mingw-w64'',
          win_prefix @ [backslash] @ ''Library'' @ [backslash] @ ''mingw-w64'' @ [backslash] @ ''bin'',
          win_prefix @ [backslash] @ ''Library'' @ [backslash] @ ''mingw-w64'' @ [backslash] @ ''lib'']"
proof -
  have a: "sys_platform win_host = ''win32''" by (simp add: host_defs)
  from windows_dirs_appended [OF a] show ?thesis
    using a by (simp add: model_defs host_defs)
qed

theorem windows_prefix_counterexample:
  "sys_platform win_host = ''win32''
   \<and> fs win_host (win_prefix @ [backslash] @ ''xgboost.dll'') = Some RegularFile
   \<and> filter (\<lambda>p. fs win_host p = Some RegularFile) (spec_windows_paths win_host)
       = [win_prefix @ [backslash] @ ''xgboost.dll'']
   \<and> find_lib_path win_host = Inl (XGBoostLibraryNotFound (msg win_host))
   \<and> dll_path win_host ! 3 = win_prefix @ [backslash] @ ''bin'' @ [backslash] @ ''xgboost.dll''
   \<and> spec_windows_paths win_host ! 3 = win_prefix @ [backslash] @ ''xgboost.dll''
   \<and> dll_path win_host \<noteq> spec_windows_paths win_host"
  by (simp add: model_defs host_defs)



text \<open>
  Claim C6. When \<open>XGBOOST_LIBRARY_PATH\<close> is set to \<open>v\<close>, the candidates are built from
  the three built-in directories, then \<open>v/lib\<close>, then the Windows directories (present
  on \<open>win32\<close> only). With the variable removed and nothing else changed, the candidates
  are built from the same list without that one entry: the override adds a candidate and
  leaves the others and their order alone.
\<close>

theorem override_is_appended:
  "environ h ''XGBOOST_LIBRARY_PATH'' = Some v \<Longrightarrow>
     dll_path h =
       map (candidate_file h)
         (builtin_dirs h @ [os_path_join h v [''lib'']] @ windows_dirs h)
     \<and> dll_path (h\<lparr>environ := (environ h)(''XGBOOST_LIBRARY_PATH'' := None)\<rparr>) =
       map (candidate_file h) (builtin_dirs h @ windows_dirs h)"
  using dll_path_with_override [of h v] dll_path_without_override [of h] by blast

theorem override_is_appended_witness:
  "environ linux_host ''XGBOOST_LIBRARY_PATH'' = Some ''/opt/custom''
   \<and> dll_path linux_host =
       [''/pkg/xgboost/lib/libxgboost.so'', ''/pkg/xgboost/../../lib/libxgboost.so'',
        ''/usr/lib/libxgboost.so'', ''/opt/custom/lib/libxgboost.so'']
   \<and> dll_path (linux_host\<lparr>environ := (environ linux_host)(''XGBOOST_LIBRARY_PATH'' := None)\<rparr>) =
       [''/pkg/xgboost/lib/libxgboost.so'', ''/pkg/xgboost/../../lib/libxgboost.so'',
        ''/usr/lib/libxgboost.so'']"
proof -
  have a: "environ linux_host ''XGBOOST_LIBRARY_PATH'' = Some ''/opt/custom''"
    by (simp add: host_defs)
  have c: "map (candidate_file linux_host)
        (builtin_dirs linux_host @ [os_path_join linux_host ''/opt/custom'' [''lib'']]
           @ windows_dirs linux_host) =
       [''/pkg/xgboost/lib/libxgboost.so'', ''/pkg/xgboost/../../lib/libxgboost.so'',
        ''/usr/lib/libxgboost.so'', ''/opt/custom/lib/libxgboost.so'']"
    by (simp add: model_defs host_defs)
  have d: "map (candidate_file linux_host) (builtin_dirs linux_host @ windows_dirs linux_host) =
       [''/pkg/xgboost/lib/libxgboost.so'', ''/pkg/xgboost/../../lib/libxgboost.so'',
        ''/usr/lib/libxgboost.so'']"
    by (simp add: model_defs host_defs)
  from override_is_appended [OF a] c d a show ?thesis by (simp only: simp_thms)
qed

text \<open>
  Claim C7. A path that exists in the file system as anything but a regular file, a
  directory for instance, is never a member of the list \<open>find_lib_path\<close> returns.
\<close>

theorem non_regular_excluded:
  "fs h p = Some k \<Longrightarrow> k \<noteq> RegularFile \<Longrightarrow> find_lib_path h = Inr lib_path \<Longrightarrow>
     p \<notin> set lib_path"
  by (auto simp add: find_lib_path_cases split: if_splits)

theorem non_regular_excluded_witness:
  "fs linux_host ''/usr/lib/libxgboost.so'' = Some Directory
   \<and> ''/usr/lib/libxgboost.so'' \<in> set (dll_path linux_host)
   \<and> find_lib_path linux_host = Inr [''/opt/custom/lib/libxgboost.so'']
   \<and> ''/usr/lib/libxgboost.so'' \<notin> set [''/opt/custom/lib/libxgboost.so'']"
proof -
  have a: "fs linux_host ''/usr/lib/libxgboost.so'' = Some Directory"
    by (simp add: host_defs)
  have b: "Directory \<noteq> RegularFile" by simp
  have c: "find_lib_path linux_host = Inr [''/opt/custom/lib/libxgboost.so'']"
    by (simp add: model_defs host_defs)
  have d: "''/usr/lib/libxgboost.so'' \<in> set (dll_path linux_host)"
    by (simp add: model_defs host_defs)
  from non_regular_excluded [OF a b c] a c d show ?thesis by (simp only: simp_thms)
qed

text \<open>
  Claim C8. \<open>find_lib_path\<close> keeps no state between calls, so a call is a function of
  the host it runs on. Its outcome, the returned list or the raised error with its
  message, depends only on what it reads: the path module in use, the two platform
  identifiers, the base prefix, the package directory, the variables
  \<open>XGBOOST_LIBRARY_PATH\<close> and \<open>XGBOOST_BUILD_DOC\<close>, and the file kinds at the candidate
  paths. Two calls on hosts that agree on these give the same outcome; in particular two
  calls on an unchanged host do.
\<close>

theorem find_lib_path_deterministic:
  assumes "os_name h' = os_name h" and "sys_platform h' = sys_platform h"
    and "platform_system h' = platform_system h" and "sys_base_prefix h' = sys_base_prefix h"
    and "curr_path h' = curr_path h"
    and "environ h' ''XGBOOST_LIBRARY_PATH'' = environ h ''XGBOOST_LIBRARY_PATH''"
    and "environ h' ''XGBOOST_BUILD_DOC'' = environ h ''XGBOOST_BUILD_DOC''"
    and "\<forall>p \<in> set (dll_path h). fs h' p = fs h p"
  shows "find_lib_path h' = find_lib_path h"
proof -
  have d: "dll_path h' = dll_path h"
    using assms(1-6) by (rule dll_path_reads)
  have f: "filter (\<lambda>p. fs h' p = Some RegularFile) (dll_path h) =
           filter (\<lambda>p. fs h p = Some RegularFile) (dll_path h)"
    using assms(8) by (intro filter_cong) simp_all
  have m: "msg h' = msg h"
    using assms(4,5) d by (simp add: msg_def)
  have b: "build_doc h' = build_doc h"
    using assms(7) by (simp add: build_doc_def)
  show ?thesis by (simp add: find_lib_path_cases d f m b)
qed

theorem find_lib_path_deterministic_witness:
  "environ busy_host ''HOME'' \<noteq> environ linux_host ''HOME''
   \<and> fs busy_host ''/etc/passwd'' \<noteq> fs linux_host ''/etc/passwd''
   \<and> find_lib_path busy_host = find_lib_path linux_host
   \<and> find_lib_path linux_host = find_lib_path linux_host"
proof -
  have a: "\<forall>p \<in> set (dll_path linux_host). fs busy_host p = fs linux_host p"
    by (simp add: model_defs host_defs)
  have "find_lib_path busy_host = find_lib_path linux_host"
    by (rule find_lib_path_deterministic [OF _ _ _ _ _ _ _ a]) (simp_all add: host_defs)
  moreover have "find_lib_path linux_host = find_lib_path linux_host"
    by (rule find_lib_path_deterministic) simp_all
  moreover have "environ busy_host ''HOME'' \<noteq> environ linux_host ''HOME''"
    "fs busy_host ''/etc/passwd'' \<noteq> fs linux_host ''/etc/passwd''"
    by (simp_all add: host_defs)
  ultimately show ?thesis by (simp only: simp_thms)
qed

text \<open>
  Claim C9, amended. When \<open>sys.platform\<close> matches none of the four families and
  \<open>platform.system()\<close> is not \<open>OS400\<close>, no file name is joined on: the candidates are
  the base directories themselves and the result is the list of base directories that are
  regular files. If none of them is a regular file, the call returns the empty list in
  documentation mode and raises otherwise, whatever files lie inside those directories.
  A base directory path can be a regular file: on \<open>sunos_host\<close> the override's
  \<open>lib\<close> is one and is returned, which refutes the claim as stated.
\<close>

theorem unknown_platform_bare_dirs:
  "no_family h \<Longrightarrow> platform_system h \<noteq> ''OS400'' \<Longrightarrow>
     dll_path h = candidate_dirs h
     \<and> (find_lib_path h = Inr lib_path \<longrightarrow>
          lib_path = filter (\<lambda>d. fs h d = Some RegularFile) (candidate_dirs h))
     \<and> ((\<forall>d \<in> set (candidate_dirs h). fs h d \<noteq> Some RegularFile) \<longrightarrow>
          find_lib_path h =
            (if build_doc h then Inr [] else Inl (XGBoostLibraryNotFound (msg h))))"
proof -
  assume nf: "no_family h" and os: "platform_system h \<noteq> ''OS400''"
  have "candidate_file h = (\<lambda>d. d)"
    using nf os
    by (simp add: candidate_file_def [abs_def] family_file_def [abs_def] no_family_def
        startswith_any_def)
  then have d: "dll_path h = candidate_dirs h"
    by (simp add: dll_path_candidates)
  show ?thesis
    by (auto simp add: find_lib_path_cases d filter_empty_conv)
qed

theorem unknown_platform_bare_dirs_witness:
  "no_family sunos_plain_host \<and> platform_system sunos_plain_host \<noteq> ''OS400''
   \<and> dll_path sunos_plain_host = [''/pkg/xgboost/lib'', ''/pkg/xgboost/../../lib'', ''/usr/lib'']
   \<and> fs sunos_plain_host ''/usr/lib/libxgboost.so'' = Some RegularFile
   \<and> find_lib_path sunos_plain_host = Inl (XGBoostLibraryNotFound (msg sunos_plain_host))"
proof -
  have a: "no_family sunos_plain_host" by (simp add: model_defs host_defs)
  have b: "platform_system sunos_plain_host \<noteq> ''OS400''" by (simp add: host_defs)
  have c: "candidate_dirs sunos_plain_host =
      [''/pkg/xgboost/lib'', ''/pkg/xgboost/../../lib'', ''/usr/lib'']"
    by (simp add: model_defs host_defs)
  have d: "\<forall>d \<in> set (candidate_dirs sunos_plain_host). fs sunos_plain_host d \<noteq> Some RegularFile"
    by (simp add: c) (simp add: host_defs)
  have e: "\<not> build_doc sunos_plain_host" by (simp add: build_doc_def host_defs)
  have f: "fs sunos_plain_host ''/usr/lib/libxgboost.so'' = Some RegularFile"
    by (simp add: host_defs)
  from unknown_platform_bare_dirs [OF a b, of "[]"] d e
  have "dll_path sunos_plain_host = candidate_dirs sunos_plain_host"
    and "find_lib_path sunos_plain_host = Inl (XGBoostLibraryNotFound (msg sunos_plain_host))"
    by simp_all
  with a b c f show ?thesis by (simp only: simp_thms)
qed

theorem unknown_platform_counterexample:
  "no_family sunos_host \<and> platform_system sunos_host \<noteq> ''OS400''
   \<and> fs sunos_host ''/home/u/x/lib'' = Some RegularFile
   \<and> find_lib_path sunos_host = Inr [''/home/u/x/lib'']"
  by (simp add: model_defs host_defs)

text \<open>
  Claim C10. The override is tested for presence only. With \<open>XGBOOST_LIBRARY_PATH\<close> set
  to the empty string, the list of base directories still grows by one entry, the relative
  path \<open>lib\<close>, under either path module.
\<close>

theorem empty_override_appends_lib:
  "environ h ''XGBOOST_LIBRARY_PATH'' = Some [] \<Longrightarrow>
     custom_dirs h (builtin_dirs h) = builtin_dirs h @ [''lib'']
     \<and> dll_path h = map (candidate_file h) (builtin_dirs h @ [''lib''] @ windows_dirs h)"
  by (simp add: dll_path_candidates candidate_dirs_def builtin_dirs_def pardir_def
      override_dirs_def custom_dirs_def join_empty_lib)

theorem empty_override_appends_lib_witness:
  "environ empty_override_host ''XGBOOST_LIBRARY_PATH'' = Some []
   \<and> dll_path empty_override_host =
       [''/pkg/xgboost/lib/libxgboost.so'', ''/pkg/xgboost/../../lib/libxgboost.so'',
        ''/usr/lib/libxgboost.so'', ''lib/libxgboost.so'']
   \<and> find_lib_path empty_override_host = Inr [''lib/libxgboost.so'']"
proof -
  have a: "environ empty_override_host ''XGBOOST_LIBRARY_PATH'' = Some []"
    by (simp add: host_defs)
  have c: "map (candidate_file empty_override_host)
        (builtin_dirs empty_override_host @ [''lib''] @ windows_dirs empty_override_host) =
       [''/pkg/xgboost/lib/libxgboost.so'', ''/pkg/xgboost/../../lib/libxgboost.so'',
        ''/usr/lib/libxgboost.so'', ''lib/libxgboost.so'']"
    by (simp add: model_defs host_defs)
  have d: "find_lib_path empty_override_host = Inr [''lib/libxgboost.so'']"
    by (simp add: model_defs host_defs)
  from empty_override_appends_lib [OF a] c d a show ?thesis by (simp only: simp_thms)
qed

end
